theory Spec2Isabelle
  imports Complex_Main
begin

section \<open>Data model of \<^verbatim>\<open>native/src/lib/math.ts\<close>\<close>

text \<open>
  JavaScript numbers that the program only ever uses as integers (levels, streaks, elapsed
  milliseconds, operands) are modelled as \<^typ>\<open>int\<close>. The two quotients the program computes
  (\<^verbatim>\<open>correct / history.length\<close> and \<^verbatim>\<open>total / history.length\<close>) are modelled as exact
  rationals; the literal \<^verbatim>\<open>0.55\<close> is the rational \<open>11/20\<close>. The program computes them as
  doubles. Two distinct accuracies over histories of fewer than \<open>2^26\<close> entries differ by more
  than \<open>2^-52\<close>, as do such an accuracy and \<open>11/20\<close>, while rounding moves each by at most
  \<open>2^-54\<close>: the comparisons of the doubles come out as the comparisons of the rationals.
\<close>

datatype SkillKey = Add | Sub | Mul | Div

record Result =
  correct :: bool
  ms :: int

record SkillStats =
  level :: int
  streak :: int
  mistakeStreak :: int
  history :: "Result list"

type_synonym Stats = "SkillKey \<Rightarrow> SkillStats"

record LevelSpec =
  minA :: "int option"
  maxA :: int
  minB :: "int option"
  maxB :: int
  allowNegative :: "bool option"

definition MAX_HISTORY :: nat where
  "MAX_HISTORY = 12"

definition MAX_LEVEL :: nat where
  "MAX_LEVEL = 50"

subsection \<open>Array helpers\<close>

text \<open>
  \<^verbatim>\<open>xs.slice(start)\<close>: a negative start counts from the end, and both cases are clipped
  to the bounds of the array.
\<close>

definition slice_from :: "'a list \<Rightarrow> int \<Rightarrow> 'a list" where
  "slice_from xs start =
     (let n = int (length xs);
          k = (if start < 0 then max (n + start) 0 else min start n)
      in drop (nat k) xs)"

subsection \<open>The level table\<close>

text \<open>The \<^verbatim>\<open>for\<close> loop of \<^verbatim>\<open>buildLinearLevels\<close>, from index \<open>i\<close> on.\<close>

function linear_loop :: "int \<Rightarrow> nat \<Rightarrow> int \<Rightarrow> LevelSpec list \<Rightarrow> LevelSpec list" where
  "linear_loop step i current levels =
     (if i < MAX_LEVEL
      then (let current' = current + step
            in linear_loop step (i + 1) current'
                 (levels @ [\<lparr>minA = None, maxA = current', minB = None, maxB = current',
                             allowNegative = None\<rparr>]))
      else levels)"
  by pat_completeness auto
termination
  by (relation "measure (\<lambda>(step, i, current, levels). MAX_LEVEL - i)") auto

definition buildLinearLevels :: "int list \<Rightarrow> int \<Rightarrow> LevelSpec list" where
  "buildLinearLevels base step =
     (let levels = map (\<lambda>m. \<lparr>minA = None, maxA = m, minB = None, maxB = m,
                              allowNegative = None\<rparr>) (take MAX_LEVEL base)
      in if length levels = 0 then levels
         else linear_loop step (length levels) (maxA (last levels)) levels)"

text \<open>The \<^verbatim>\<open>for\<close> loop of \<^verbatim>\<open>buildDivLevels\<close>, from index \<open>i\<close> on.\<close>

function div_loop ::
  "nat \<Rightarrow> nat \<Rightarrow> int \<Rightarrow> int \<Rightarrow> int \<Rightarrow> LevelSpec list \<Rightarrow> LevelSpec list" where
  "div_loop startIndex i mxA mxB mnA levels =
     (if i < MAX_LEVEL
      then (let mxA' = mxA + 5;
                mxB' = mxB + 4;
                added = i - startIndex + 1;
                mnA' = (if added mod 5 = 0 then mnA + 1 else mnA)
            in div_loop startIndex (i + 1) mxA' mxB' mnA'
                 (levels @ [\<lparr>minA = Some mnA', maxA = mxA', minB = Some 0, maxB = mxB',
                             allowNegative = None\<rparr>]))
      else levels)"
  by pat_completeness auto
termination
  by (relation "measure (\<lambda>(startIndex, i, mxA, mxB, mnA, levels). MAX_LEVEL - i)") auto

definition buildDivLevels :: "LevelSpec list \<Rightarrow> LevelSpec list" where
  "buildDivLevels base =
     (let levels = take MAX_LEVEL base
      in if length levels = 0 then levels
         else div_loop (length levels) (length levels)
                (maxA (last levels)) (maxB (last levels))
                (case minA (last levels) of None \<Rightarrow> 1 | Some m \<Rightarrow> m) levels)"

definition BASE_ADD_LEVELS :: "int list" where
  "BASE_ADD_LEVELS = [10, 20, 30, 50, 75, 100, 150, 250, 500, 1000, 1500, 2000]"

definition BASE_MUL_LEVELS :: "int list" where
  "BASE_MUL_LEVELS = [5, 9, 12, 15, 20, 25, 30, 40, 50, 60, 75, 90]"

definition div_spec :: "int \<Rightarrow> int \<Rightarrow> int \<Rightarrow> int \<Rightarrow> LevelSpec" where
  "div_spec mnA mxA mnB mxB =
     \<lparr>minA = Some mnA, maxA = mxA, minB = Some mnB, maxB = mxB, allowNegative = None\<rparr>"

definition BASE_DIV_LEVELS :: "LevelSpec list" where
  "BASE_DIV_LEVELS =
     [div_spec 1 5 0 5, div_spec 1 9 0 9, div_spec 1 12 0 12, div_spec 2 15 0 12,
      div_spec 2 20 0 15, div_spec 2 25 0 20, div_spec 3 30 0 25, div_spec 3 40 0 30,
      div_spec 4 50 0 40, div_spec 5 60 0 50, div_spec 6 75 0 60, div_spec 8 90 0 70]"

fun LEVELS :: "SkillKey \<Rightarrow> LevelSpec list" where
  "LEVELS Add = buildLinearLevels BASE_ADD_LEVELS 250"
| "LEVELS Sub = buildLinearLevels BASE_ADD_LEVELS 250"
| "LEVELS Mul = buildLinearLevels BASE_MUL_LEVELS 5"
| "LEVELS Div = buildDivLevels BASE_DIV_LEVELS"

definition SKILL_LIST :: "SkillKey list" where
  "SKILL_LIST = [Add, Sub, Mul, Div]"

definition clamp :: "int \<Rightarrow> int \<Rightarrow> int \<Rightarrow> int" where
  "clamp v lo hi = min (max v lo) hi"

text \<open>
  \<^verbatim>\<open>specs[clamp(level - 1, 0, specs.length - 1)]\<close>. On an empty table the index is \<open>-1\<close>
  and JavaScript yields \<^verbatim>\<open>undefined\<close>, which is \<open>None\<close> here.
\<close>

definition getLevelSpec :: "SkillKey \<Rightarrow> int \<Rightarrow> LevelSpec option" where
  "getLevelSpec skill lvl =
     (let specs = LEVELS skill;
          i = clamp (lvl - 1) 0 (int (length specs) - 1)
      in if 0 \<le> i \<and> i < int (length specs) then Some (specs ! nat i) else None)"

definition createDefaultStats :: Stats where
  "createDefaultStats = (\<lambda>skill. \<lparr>level = 1, streak = 0, mistakeStreak = 0, history = []\<rparr>)"

subsection \<open>Projections of the history window\<close>

definition accuracyFromHistory :: "Result list \<Rightarrow> rat" where
  "accuracyFromHistory h =
     (if length h = 0 then 0
      else (let n = foldl (\<lambda>total item. total + (if correct item then 1 else 0)) (0::int) h
            in of_int n / of_nat (length h)))"

definition getAccuracy :: "SkillStats \<Rightarrow> rat" where
  "getAccuracy stats = accuracyFromHistory (history stats)"

definition getAverageMs :: "SkillStats \<Rightarrow> rat" where
  "getAverageMs stats =
     (if length (history stats) = 0 then 0
      else (let total = foldl (\<lambda>sum item. sum + ms item) (0::int) (history stats)
            in of_int total / of_nat (length (history stats))))"

definition getTargetMs :: "int \<Rightarrow> int" where
  "getTargetMs lvl = (let base = 6000; drop = 300 in clamp (base - lvl * drop) 2400 6000)"

subsection \<open>The weakest skill\<close>

definition skill_score :: "Stats \<Rightarrow> SkillKey \<Rightarrow> rat" where
  "skill_score stats skill =
     (let h = history (stats skill)
      in if length h = 0 then 11 / 20 else accuracyFromHistory h)"

text \<open>
  The body of the \<^verbatim>\<open>forEach\<close> callback, acting on the two captured variables
  \<^verbatim>\<open>weakest\<close> and \<^verbatim>\<open>weakestScore\<close>.
\<close>

definition weakest_step :: "Stats \<Rightarrow> SkillKey \<times> rat \<Rightarrow> SkillKey \<Rightarrow> SkillKey \<times> rat" where
  "weakest_step stats acc skill =
     (let score = skill_score stats skill
      in if score < snd acc then (skill, score) else acc)"

definition getWeakestSkill :: "Stats \<Rightarrow> SkillKey" where
  "getWeakestSkill stats = fst (foldl (weakest_step stats) (SKILL_LIST ! 0, 1) SKILL_LIST)"

subsection \<open>The leveling step\<close>

definition updateStats :: "Stats \<Rightarrow> SkillKey \<Rightarrow> bool \<Rightarrow> int \<Rightarrow> Stats" where
  "updateStats stats skill corr elapsed =
     (let current = stats skill;
          nextHistory = slice_from (history current @ [\<lparr>correct = corr, ms = elapsed\<rparr>])
                          (- int MAX_HISTORY);
          nextStreak = (if corr then streak current + 1 else 0);
          nextMistakeStreak = (if corr then 0 else mistakeStreak current + 1);
          levelMax = int (length (LEVELS skill));
          up = (corr \<and> nextStreak \<ge> 3 \<and> elapsed \<le> getTargetMs (level current));
          nextLevel1 = (if up then clamp (level current + 1) 1 levelMax else level current);
          leveledUp = (if up then nextLevel1 \<noteq> level current else False);
          down = (\<not> corr \<and> nextMistakeStreak \<ge> 2);
          nextLevel = (if down then clamp (level current - 1) 1 levelMax else nextLevel1);
          leveledDown = (if down then nextLevel \<noteq> level current else False)
      in stats(skill := current
           \<lparr>level := nextLevel,
            streak := (if corr \<and> \<not> leveledUp then nextStreak else 0),
            mistakeStreak := (if \<not> corr \<and> \<not> leveledDown then nextMistakeStreak else 0),
            history := nextHistory\<rparr>))"

text \<open>Any finite sequence of \<^verbatim>\<open>updateStats\<close> calls, applied left to right.\<close>

fun updateStats_many :: "Stats \<Rightarrow> (SkillKey \<times> bool \<times> int) list \<Rightarrow> Stats" where
  "updateStats_many stats [] = stats"
| "updateStats_many stats ((skill, corr, elapsed) # rest) =
     updateStats_many (updateStats stats skill corr elapsed) rest"

subsection \<open>The question generator\<close>

text \<open>
  Template literals render an integer operand in decimal, with a leading minus sign for a
  negative one. (JavaScript switches to exponent notation from \<open>10^21\<close> on; the operands of
  the level table stay far below.)
\<close>

definition digit_char :: "nat \<Rightarrow> char" where
  "digit_char d = char_of (48 + d)"

fun show_nat :: "nat \<Rightarrow> string" where
  "show_nat n =
     (if n < 10 then [digit_char n] else show_nat (n div 10) @ [digit_char (n mod 10)])"

definition show_int :: "int \<Rightarrow> string" where
  "show_int i = (if i < 0 then CHR ''-'' # show_nat (nat (- i)) else show_nat (nat i))"

text \<open>
  \<^verbatim>\<open>randomInt(min, max)\<close>, with the value \<open>r\<close> of \<^verbatim>\<open>Math.random()\<close> made a parameter.
  The bounds are integers, so \<^verbatim>\<open>Math.ceil(min)\<close> and \<^verbatim>\<open>Math.floor(max)\<close> are the bounds.
\<close>

definition randomInt :: "rat \<Rightarrow> int \<Rightarrow> int \<Rightarrow> int" where
  "randomInt r mn mx =
     (let safeMin = mn; safeMax = mx
      in \<lfloor>r * of_int (safeMax - safeMin + 1)\<rfloor> + safeMin)"

record Question =
  q_id :: string
  q_text :: string
  q_answer :: int
  q_skill :: SkillKey
  q_level :: int

fun skill_name :: "SkillKey \<Rightarrow> string" where
  "skill_name Add = ''add''"
| "skill_name Sub = ''sub''"
| "skill_name Mul = ''mul''"
| "skill_name Div = ''div''"

text \<open>The two operands drawn from a level specification.\<close>

definition operandA :: "LevelSpec \<Rightarrow> rat \<Rightarrow> int" where
  "operandA spec ra = randomInt ra (case minA spec of None \<Rightarrow> 0 | Some m \<Rightarrow> m) (maxA spec)"

definition operandB :: "LevelSpec \<Rightarrow> rat \<Rightarrow> int" where
  "operandB spec rb = randomInt rb (case minB spec of None \<Rightarrow> 0 | Some m \<Rightarrow> m) (maxB spec)"

text \<open>
  \<^verbatim>\<open>generateQuestion(skill, level, options)\<close>. The results \<open>ra\<close>, \<open>rb\<close> of the two calls of
  \<^verbatim>\<open>Math.random()\<close> that draw the operands, the clock \<open>now\<close> and the random hexadecimal
  suffix of the identifier are parameters. \<open>options\<close> is the value of
  \<^verbatim>\<open>options?.allowNegative\<close>. A missing level specification makes the property access
  \<^verbatim>\<open>spec.minA\<close> throw, which is \<open>None\<close> here.
\<close>

definition generateQuestion ::
  "SkillKey \<Rightarrow> int \<Rightarrow> bool option \<Rightarrow> rat \<Rightarrow> rat \<Rightarrow> int \<Rightarrow> string \<Rightarrow> Question option" where
  "generateQuestion skill lvl options ra rb now suffix =
     (case getLevelSpec skill lvl of
        None \<Rightarrow> None
      | Some spec \<Rightarrow>
          (let a = operandA spec ra;
               b = operandB spec rb;
               ident = skill_name skill @ ''-'' @ show_int now @ ''-'' @ suffix
           in if skill = Add then
                Some \<lparr>q_id = ident, q_text = show_int a @ '' + '' @ show_int b,
                      q_answer = a + b, q_skill = skill, q_level = lvl\<rparr>
              else if skill = Sub then
                (let allowNeg = (case options of Some v \<Rightarrow> v
                                 | None \<Rightarrow> (case allowNegative spec of Some v \<Rightarrow> v
                                            | None \<Rightarrow> False));
                     high = (if allowNeg then a else max a b);
                     low = (if allowNeg then b else min a b)
                 in Some \<lparr>q_id = ident, q_text = show_int high @ '' - '' @ show_int low,
                          q_answer = high - low, q_skill = skill, q_level = lvl\<rparr>)
              else if skill = Mul then
                Some \<lparr>q_id = ident, q_text = show_int a @ '' x '' @ show_int b,
                      q_answer = a * b, q_skill = skill, q_level = lvl\<rparr>
              else
                (let divisor = max 1 a;
                     quotient = b;
                     dividend = divisor * quotient
                 in Some \<lparr>q_id = ident,
                          q_text = show_int dividend @ '' / '' @ show_int divisor,
                          q_answer = quotient, q_skill = skill, q_level = lvl\<rparr>)))"

declare show_nat.simps [simp del]

section \<open>The answer contract of \<^verbatim>\<open>mathTrainingProvider.ts\<close>\<close>

text \<open>
  The provider imports the leveling functions from the web module \<^verbatim>\<open>@/lib/math\<close>; they
  are taken from its copy \<^verbatim>\<open>native/src/lib/math.ts\<close> above.
\<close>

record MathSettings =
  questionCount :: int
  timeLimitSeconds :: int
  negativeLevel :: int

datatype ParseError = EmptyInput | IncompleteInput | InvalidInput

text \<open>A JavaScript number as far as the parser can tell numbers apart.\<close>

datatype JsNumber = Finite int | PosInfinity | NegInfinity | NaN

fun isFinite :: "JsNumber \<Rightarrow> bool" where
  "isFinite (Finite v) = True"
| "isFinite PosInfinity = False"
| "isFinite NegInfinity = False"
| "isFinite NaN = False"

definition is_digit :: "char \<Rightarrow> bool" where
  "is_digit c = (48 \<le> (of_char c :: nat) \<and> (of_char c :: nat) \<le> 57)"

definition digits_value :: "string \<Rightarrow> nat" where
  "digits_value ds = foldl (\<lambda>acc c. 10 * acc + ((of_char c :: nat) - 48)) 0 ds"

text \<open>
  The least integer that the conversion to a double rounds to \<^verbatim>\<open>Infinity\<close>: half an ulp
  above the largest finite double.
\<close>

definition DOUBLE_OVERFLOW :: nat where
  "DOUBLE_OVERFLOW = 2 ^ 1024 - 2 ^ 970"

text \<open>
  The built-in conversion \<^verbatim>\<open>Number(value)\<close> on the strings that the sanitizer produces:
  decimal digits with at most one leading minus sign. The empty string converts to 0, a string
  that is no decimal integer to \<^verbatim>\<open>NaN\<close>, and a magnitude too large for a double to an
  infinity. Below that bound the integer itself stands for the double nearest to it; the
  two agree up to \<open>2^53\<close>.
\<close>

definition Number_js :: "string \<Rightarrow> JsNumber" where
  "Number_js s =
     (case s of
        [] \<Rightarrow> Finite 0
      | c # cs \<Rightarrow>
          if c = CHR ''-'' then
            (if cs \<noteq> [] \<and> list_all is_digit cs then
               (if DOUBLE_OVERFLOW \<le> digits_value cs then NegInfinity
                else Finite (- int (digits_value cs)))
             else NaN)
          else if list_all is_digit s then
            (if DOUBLE_OVERFLOW \<le> digits_value s then PosInfinity
             else Finite (int (digits_value s)))
          else NaN)"

definition allowNegativeAnswer_math :: "Question \<Rightarrow> MathSettings \<Rightarrow> bool" where
  "allowNegativeAnswer_math question settings =
     (q_skill question = Sub \<and> negativeLevel settings > 0
      \<and> q_level question \<ge> negativeLevel settings)"

text \<open>
  The three regular-expression replacements: \<^verbatim>\<open>/[^0-9-]/g\<close> keeps digits and minus signs,
  \<^verbatim>\<open>/-/g\<close> removes every minus sign, and \<^verbatim>\<open>/(?!^)-/g\<close> removes every minus sign that is
  not the first character.
\<close>

definition sanitizeNumericInput :: "string \<Rightarrow> bool \<Rightarrow> string" where
  "sanitizeNumericInput raw allowNeg =
     (let cleaned = filter (\<lambda>c. is_digit c \<or> c = CHR ''-'') raw
      in if \<not> allowNeg then filter (\<lambda>c. c \<noteq> CHR ''-'') cleaned
         else if CHR ''-'' \<in> set cleaned then
           (case cleaned of [] \<Rightarrow> [] | c # cs \<Rightarrow> c # filter (\<lambda>d. d \<noteq> CHR ''-'') cs)
         else cleaned)"

definition parseNumericInput :: "string \<Rightarrow> ParseError + JsNumber" where
  "parseNumericInput v =
     (if v = [] then Inl EmptyInput
      else if v = ''-'' then Inl IncompleteInput
      else (let numeric = Number_js v
            in if \<not> isFinite numeric then Inl InvalidInput else Inr numeric))"

record AnswerErrors =
  err_empty :: string
  err_emptyKeypad :: "string option"
  err_incomplete :: string
  err_invalid :: string

record AnswerContract =
  ans_allowNegative :: "(Question \<Rightarrow> MathSettings \<Rightarrow> bool) option"
  ans_sanitizeInput :: "string \<Rightarrow> bool \<Rightarrow> string"
  ans_parseInput :: "string \<Rightarrow> bool \<Rightarrow> ParseError + JsNumber"
  ans_isCorrect :: "JsNumber \<Rightarrow> Question \<Rightarrow> bool"
  ans_formatExpected :: "Question \<Rightarrow> string"
  ans_errors :: AnswerErrors

record Provider =
  prov_updateStats :: "Stats \<Rightarrow> SkillKey \<Rightarrow> bool \<Rightarrow> int \<Rightarrow> Stats"
  prov_answer :: AnswerContract

definition math_errors :: AnswerErrors where
  "math_errors =
     \<lparr>err_empty = ''Type an answer.'',
      err_emptyKeypad = Some ''Tap numbers to continue.'',
      err_incomplete = ''Type a number.'',
      err_invalid = ''Numbers only for now.''\<rparr>"

definition mathTrainingProvider :: Provider where
  "mathTrainingProvider =
     \<lparr>prov_updateStats = (\<lambda>stats skill corr elapsedMs. updateStats stats skill corr elapsedMs),
      prov_answer =
        \<lparr>ans_allowNegative = Some allowNegativeAnswer_math,
         ans_sanitizeInput = (\<lambda>raw allowNeg. sanitizeNumericInput raw allowNeg),
         ans_parseInput = (\<lambda>v allowNeg. parseNumericInput v),
         ans_isCorrect = (\<lambda>v question. v = Finite (q_answer question)),
         ans_formatExpected = (\<lambda>question. show_int (q_answer question)),
         ans_errors = math_errors\<rparr>\<rparr>"

section \<open>The submit handler of \<^verbatim>\<open>useTrainingSession.ts\<close>\<close>

datatype Screen = Menu | Drill | Settings | Summary | StatsScreen

datatype Mode = Skill SkillKey | Mix

record Feedback =
  fb_correct :: bool
  fb_expected :: string
  fb_ms :: int
  fb_skill :: SkillKey
  fb_level :: int
  fb_timedOut :: bool

record SessionCounts =
  sc_correct :: int
  sc_wrong :: int

text \<open>
  The state of the hook: its \<^verbatim>\<open>useState\<close> cells and its \<^verbatim>\<open>useRef\<close> cells
  (\<^verbatim>\<open>statsRef\<close>, \<^verbatim>\<open>modeRef\<close>, \<^verbatim>\<open>startTimeRef\<close>, \<^verbatim>\<open>advanceTimerRef\<close>).
\<close>

record HookState =
  st_stats :: Stats
  st_mode :: Mode
  st_screen :: Screen
  st_settings :: MathSettings
  st_question :: "Question option"
  st_answer :: string
  st_feedback :: "Feedback option"
  st_error :: "string option"
  st_session :: SessionCounts
  st_questionIndex :: int
  st_timeLeft :: int
  st_answered :: bool
  st_startTimeRef :: int
  st_advanceTimerRef :: "nat option"
  st_statsRef :: Stats
  st_modeRef :: Mode

text \<open>
  \<^verbatim>\<open>String.prototype.trim\<close> on strings of one-byte characters: tab, line feed, vertical tab,
  form feed, carriage return, space and no-break space are removed from both ends.
\<close>

definition is_space :: "char \<Rightarrow> bool" where
  "is_space c = ((of_char c :: nat) \<in> {9, 10, 11, 12, 13, 32, 160})"

definition trim :: "string \<Rightarrow> string" where
  "trim s = rev (dropWhile is_space (rev (dropWhile is_space s)))"

definition clearAdvanceTimer :: "HookState \<Rightarrow> HookState" where
  "clearAdvanceTimer st =
     (if st_advanceTimerRef st \<noteq> None then st\<lparr>st_advanceTimerRef := None\<rparr> else st)"

definition allowNegativeAnswer :: "Provider \<Rightarrow> HookState \<Rightarrow> bool" where
  "allowNegativeAnswer provider st =
     (case st_question st of
        None \<Rightarrow> False
      | Some question \<Rightarrow>
          (case ans_allowNegative (prov_answer provider) of
             None \<Rightarrow> False
           | Some f \<Rightarrow> f question (st_settings st)))"

definition applyResult :: "Provider \<Rightarrow> bool \<Rightarrow> int \<Rightarrow> bool \<Rightarrow> HookState \<Rightarrow> HookState" where
  "applyResult provider corr elapsed timedOut st =
     (case st_question st of
        None \<Rightarrow> st
      | Some question \<Rightarrow>
          (let nextStats = prov_updateStats provider (st_statsRef st) (q_skill question)
                             corr elapsed;
               prev = st_session st
           in st\<lparr>st_statsRef := nextStats,
                 st_stats := nextStats,
                 st_feedback := Some \<lparr>fb_correct = corr,
                   fb_expected = ans_formatExpected (prov_answer provider) question,
                   fb_ms = elapsed, fb_skill = q_skill question, fb_level = q_level question,
                   fb_timedOut = timedOut\<rparr>,
                 st_session := \<lparr>sc_correct = sc_correct prev + (if corr then 1 else 0),
                                sc_wrong = sc_wrong prev + (if corr then 0 else 1)\<rparr>,
                 st_error := None,
                 st_answered := True\<rparr>))"

text \<open>
  \<^verbatim>\<open>handleSubmit(options)\<close>, with the clock \<open>now\<close> and the value \<open>useKeypad\<close> of
  \<^verbatim>\<open>Boolean(options?.useKeypad)\<close> as parameters.
\<close>

definition handleSubmit :: "Provider \<Rightarrow> int \<Rightarrow> bool \<Rightarrow> HookState \<Rightarrow> HookState" where
  "handleSubmit provider now useKeypad st =
     (case st_question st of
        None \<Rightarrow> st
      | Some question \<Rightarrow>
          if st_answered st then st
          else
            (let prefersKeypadErrors = useKeypad;
                 allowNeg = allowNegativeAnswer provider st;
                 cleaned = ans_sanitizeInput (prov_answer provider) (trim (st_answer st)) allowNeg;
                 parsed = ans_parseInput (prov_answer provider) cleaned allowNeg;
                 errs = ans_errors (prov_answer provider)
             in case parsed of
                  Inl e \<Rightarrow>
                    if e = EmptyInput then
                      st\<lparr>st_error := Some
                        (if prefersKeypadErrors
                         then (case err_emptyKeypad errs of Some m \<Rightarrow> m | None \<Rightarrow> err_empty errs)
                         else err_empty errs)\<rparr>
                    else if e = IncompleteInput then st\<lparr>st_error := Some (err_incomplete errs)\<rparr>
                    else st\<lparr>st_error := Some (err_invalid errs)\<rparr>
                | Inr v \<Rightarrow>
                    (let elapsed = now - st_startTimeRef st;
                         corr = ans_isCorrect (prov_answer provider) v question
                     in applyResult provider corr elapsed False (clearAdvanceTimer st))))"

section \<open>The leveling step on the object store\<close>

text \<open>
  To state that \<^verbatim>\<open>updateStats\<close> leaves its argument alone, the objects are placed in a
  store. An address is an index into the store; allocation appends. A \<^verbatim>\<open>Stats\<close> object
  holds a reference to one \<^verbatim>\<open>SkillStats\<close> object per skill, a \<^verbatim>\<open>SkillStats\<close> object
  holds its three counters and a reference to the history array, and an array holds references
  to \<^verbatim>\<open>Result\<close> objects.
\<close>

type_synonym addr = nat

datatype obj =
    ResultObj bool int
  | ArrayObj "addr list"
  | SkillStatsObj int int int addr
  | StatsObj "SkillKey \<Rightarrow> addr"

type_synonym store = "obj list"

definition lookup :: "store \<Rightarrow> addr \<Rightarrow> obj option" where
  "lookup h a = (if a < length h then Some (h ! a) else None)"

definition alloc :: "store \<Rightarrow> obj \<Rightarrow> store \<times> addr" where
  "alloc h x = (h @ [x], length h)"

text \<open>
  \<^verbatim>\<open>updateStats\<close> on the store. The spread \<^verbatim>\<open>[...current.history, { correct, ms }]\<close>
  allocates the result object and a new array, \<^verbatim>\<open>slice\<close> allocates another array, and the
  two object literals of the \<^verbatim>\<open>return\<close> allocate the new \<^verbatim>\<open>SkillStats\<close> and \<^verbatim>\<open>Stats\<close>
  objects. Following a reference to an object of the wrong kind is \<open>None\<close>.
\<close>

definition updateStats_store ::
  "store \<Rightarrow> addr \<Rightarrow> SkillKey \<Rightarrow> bool \<Rightarrow> int \<Rightarrow> (store \<times> addr) option" where
  "updateStats_store h stats skill corr elapsed =
     (case lookup h stats of
        Some (StatsObj refs) \<Rightarrow>
          (case lookup h (refs skill) of
             Some (SkillStatsObj curLevel curStreak curMistakeStreak curHistory) \<Rightarrow>
               (case lookup h curHistory of
                  Some (ArrayObj elems) \<Rightarrow>
                    (let (h1, r) = alloc h (ResultObj corr elapsed);
                         (h2, spread) = alloc h1 (ArrayObj (elems @ [r]));
                         (h3, nextHistory) =
                            alloc h2 (ArrayObj (slice_from (elems @ [r]) (- int MAX_HISTORY)));
                         nextStreak = (if corr then curStreak + 1 else 0);
                         nextMistakeStreak = (if corr then 0 else curMistakeStreak + 1);
                         levelMax = int (length (LEVELS skill));
                         up = (corr \<and> nextStreak \<ge> 3 \<and> elapsed \<le> getTargetMs curLevel);
                         nextLevel1 = (if up then clamp (curLevel + 1) 1 levelMax else curLevel);
                         leveledUp = (if up then nextLevel1 \<noteq> curLevel else False);
                         down = (\<not> corr \<and> nextMistakeStreak \<ge> 2);
                         nextLevel =
                           (if down then clamp (curLevel - 1) 1 levelMax else nextLevel1);
                         leveledDown = (if down then nextLevel \<noteq> curLevel else False);
                         (h4, nextSkill) = alloc h3
                            (SkillStatsObj nextLevel
                               (if corr \<and> \<not> leveledUp then nextStreak else 0)
                               (if \<not> corr \<and> \<not> leveledDown then nextMistakeStreak else 0)
                               nextHistory)
                     in Some (alloc h4 (StatsObj (refs(skill := nextSkill)))))
                | _ \<Rightarrow> None)
           | _ \<Rightarrow> None)
      | _ \<Rightarrow> None)"

text \<open>The value that a reference denotes in a store.\<close>

definition read_result :: "store \<Rightarrow> addr \<Rightarrow> Result option" where
  "read_result h a =
     (case lookup h a of Some (ResultObj c m) \<Rightarrow> Some \<lparr>correct = c, ms = m\<rparr> | _ \<Rightarrow> None)"

definition read_array :: "store \<Rightarrow> addr \<Rightarrow> Result list option" where
  "read_array h a =
     (case lookup h a of Some (ArrayObj elems) \<Rightarrow> those (map (read_result h) elems)
      | _ \<Rightarrow> None)"

definition read_skill :: "store \<Rightarrow> addr \<Rightarrow> SkillStats option" where
  "read_skill h a =
     (case lookup h a of
        Some (SkillStatsObj l s m hr) \<Rightarrow>
          map_option (\<lambda>hist. \<lparr>level = l, streak = s, mistakeStreak = m, history = hist\<rparr>)
            (read_array h hr)
      | _ \<Rightarrow> None)"

definition read_stats :: "store \<Rightarrow> addr \<Rightarrow> Stats option" where
  "read_stats h a =
     (case lookup h a of
        Some (StatsObj refs) \<Rightarrow>
          if list_all (\<lambda>k. read_skill h (refs k) \<noteq> None) SKILL_LIST
          then Some (\<lambda>k. the (read_skill h (refs k)))
          else None
      | _ \<Rightarrow> None)"

definition stats_field :: "store \<Rightarrow> addr \<Rightarrow> SkillKey \<Rightarrow> addr option" where
  "stats_field h a k = (case lookup h a of Some (StatsObj refs) \<Rightarrow> Some (refs k) | _ \<Rightarrow> None)"

section \<open>Concrete inputs used in examples\<close>

definition stats_at_max_level :: Stats where
  "stats_at_max_level =
     createDefaultStats(Add := \<lparr>level = 50, streak = 2, mistakeStreak = 0, history = []\<rparr>)"

text \<open>The default statistics after one wrong answer to an addition question.\<close>

definition stats_at_level_one :: Stats where
  "stats_at_level_one = updateStats createDefaultStats Add False 500"

definition stats_mid_level :: Stats where
  "stats_mid_level =
     createDefaultStats(Mul := \<lparr>level = 7, streak = 2, mistakeStreak = 1,
       history = [\<lparr>correct = True, ms = 1000\<rparr>, \<lparr>correct = False, ms = 2000\<rparr>]\<rparr>)"

definition full_history :: "Result list" where
  "full_history = map (\<lambda>i. \<lparr>correct = True, ms = i\<rparr>) [1, 2, 3, 4, 5, 6, 7, 8, 9, 10, 11, 12]"

definition stats_full_window :: Stats where
  "stats_full_window =
     createDefaultStats(Sub := \<lparr>level = 2, streak = 0, mistakeStreak = 0, history = full_history\<rparr>)"

definition stats_tied :: Stats where
  "stats_tied =
     createDefaultStats
       (Add := \<lparr>level = 1, streak = 1, mistakeStreak = 0,
                 history = [\<lparr>correct = True, ms = 900\<rparr>]\<rparr>,
        Div := \<lparr>level = 1, streak = 0, mistakeStreak = 1,
                 history = [\<lparr>correct = True, ms = 900\<rparr>, \<lparr>correct = False, ms = 900\<rparr>]\<rparr>,
        Mul := \<lparr>level = 1, streak = 0, mistakeStreak = 1,
                 history = [\<lparr>correct = False, ms = 900\<rparr>, \<lparr>correct = True, ms = 900\<rparr>]\<rparr>)"

definition example_question :: Question where
  "example_question =
     \<lparr>q_id = ''add-1700000000000-ab12'', q_text = ''3 + 4'', q_answer = 7, q_skill = Add,
      q_level = 1\<rparr>"

definition drill_state_bare_minus :: HookState where
  "drill_state_bare_minus =
     \<lparr>st_stats = createDefaultStats, st_mode = Skill Add, st_screen = Drill,
      st_settings = \<lparr>questionCount = 10, timeLimitSeconds = 10, negativeLevel = 0\<rparr>,
      st_question = Some example_question, st_answer = ''-'', st_feedback = None,
      st_error = None, st_session = \<lparr>sc_correct = 2, sc_wrong = 1\<rparr>, st_questionIndex = 4,
      st_timeLeft = 6, st_answered = False, st_startTimeRef = 1700000000000,
      st_advanceTimerRef = None, st_statsRef = createDefaultStats, st_modeRef = Skill Add\<rparr>"

text \<open>A store in which the four skills share one \<^verbatim>\<open>SkillStats\<close> object.\<close>

definition shared_store :: store where
  "shared_store =
     [ResultObj True 1000, ArrayObj [0], SkillStatsObj 1 0 0 1, StatsObj (\<lambda>k. 2)]"

definition shared_stats :: Stats where
  "shared_stats =
     (\<lambda>k. \<lparr>level = 1, streak = 0, mistakeStreak = 0,
            history = [\<lparr>correct = True, ms = 1000\<rparr>]\<rparr>)"

section \<open>Properties\<close>

declare LEVELS.simps [simp del]

lemma linear_loop_length:
  "length (linear_loop step i current levels) = length levels + (MAX_LEVEL - i)"
proof (induction step i current levels rule: linear_loop.induct)
  case (1 step i current levels)
  show ?case
  proof (cases "i < MAX_LEVEL")
    case True
    with 1 show ?thesis by (subst linear_loop.simps) (simp add: Let_def)
  next
    case False
    then show ?thesis by (subst linear_loop.simps) simp
  qed
qed

lemma div_loop_length:
  "length (div_loop s i a b m levels) = length levels + (MAX_LEVEL - i)"
proof (induction s i a b m levels rule: div_loop.induct)
  case (1 s i a b m levels)
  show ?case
  proof (cases "i < MAX_LEVEL")
    case True
    with 1 show ?thesis by (subst div_loop.simps) (simp add: Let_def)
  next
    case False
    then show ?thesis by (subst div_loop.simps) simp
  qed
qed

lemma LEVELS_length: "length (LEVELS skill) = MAX_LEVEL"
  by (cases skill)
     (simp_all add: LEVELS.simps buildLinearLevels_def buildDivLevels_def linear_loop_length
        div_loop_length BASE_ADD_LEVELS_def BASE_MUL_LEVELS_def BASE_DIV_LEVELS_def
        MAX_LEVEL_def Let_def)


subsection \<open>Helper lemmas\<close>

lemma clamp_up_fix: "clamp (l + 1) 1 50 = l \<longleftrightarrow> l = 50"
  by (auto simp: clamp_def)

lemma clamp_down_fix: "clamp (l - 1) 1 50 = l \<longleftrightarrow> l = 1"
  by (auto simp: clamp_def)

lemma slice_from_negative:
  "0 < n \<Longrightarrow> slice_from xs (- int n) = drop (length xs - n) xs"
  by (auto simp add: slice_from_def Let_def max_def nat_diff_distrib')

lemma updateStats_history:
  "history (updateStats stats skill c e skill) =
     drop (length (history (stats skill) @ [\<lparr>correct = c, ms = e\<rparr>]) - MAX_HISTORY)
       (history (stats skill) @ [\<lparr>correct = c, ms = e\<rparr>])"
proof -
  have "0 < MAX_HISTORY" by (simp add: MAX_HISTORY_def)
  then show ?thesis
    by (simp add: updateStats_def Let_def slice_from_negative del: drop_append length_append)
qed

lemma last_elements: "rev (take n (rev xs)) = drop (length xs - n) xs"
  by (simp add: take_rev)

lemma updateStats_other: "k \<noteq> skill \<Longrightarrow> updateStats stats skill c e k = stats k"
  by (simp add: updateStats_def Let_def)

lemma updateStats_level_step:
  assumes "1 \<le> level (stats k)" and "level (stats k) \<le> int MAX_LEVEL"
  shows "1 \<le> level (updateStats stats skill c e k) \<and>
         level (updateStats stats skill c e k) \<le> int MAX_LEVEL"
proof (cases "k = skill")
  case True
  with assms show ?thesis
    by (auto simp: updateStats_def Let_def LEVELS_length MAX_LEVEL_def clamp_def)
next
  case False
  with assms show ?thesis by (simp add: updateStats_other)
qed

lemma updateStats_many_level:
  "1 \<le> level (stats k) \<Longrightarrow> level (stats k) \<le> int MAX_LEVEL \<Longrightarrow>
   1 \<le> level (updateStats_many stats rs k) \<and>
   level (updateStats_many stats rs k) \<le> int MAX_LEVEL"
proof (induction rs arbitrary: stats)
  case Nil
  then show ?case by simp
next
  case (Cons r rs)
  obtain skill c e where r: "r = (skill, c, e)" by (cases r) auto
  from Cons.prems updateStats_level_step [of stats k skill c e]
  have "1 \<le> level (updateStats stats skill c e k)"
    and "level (updateStats stats skill c e k) \<le> int MAX_LEVEL" by simp_all
  then have "1 \<le> level (updateStats_many (updateStats stats skill c e) rs k) \<and>
      level (updateStats_many (updateStats stats skill c e) rs k) \<le> int MAX_LEVEL"
    by (rule Cons.IH)
  then show ?case by (simp add: r)
qed

lemma foldl_count_correct:
  "foldl (\<lambda>total item. total + (if correct item then 1 else 0)) a h =
     a + int (length (filter correct h))"
  by (induction h arbitrary: a) auto

lemma foldl_sum_ms: "foldl (\<lambda>sum item. sum + ms item) a h = a + sum_list (map ms h)"
  by (induction h arbitrary: a) auto

lemma accuracyFromHistory_le_1: "accuracyFromHistory h \<le> 1"
  by (simp add: accuracyFromHistory_def foldl_count_correct Let_def divide_le_eq_1)

lemma skill_score_le_1: "skill_score stats k \<le> 1"
  by (simp add: skill_score_def Let_def accuracyFromHistory_le_1)

lemma all_skills: "(\<forall>j. P j) \<longleftrightarrow> P Add \<and> P Sub \<and> P Mul \<and> P Div"
  by (metis SkillKey.exhaust)

subsection \<open>Promotion and demotion\<close>

text \<open>
  Claim C1, as the code has it. For a correct result whose incremented streak is at least 3
  and whose elapsed time is at most the target time of the level before the update,
  \<^verbatim>\<open>updateStats\<close> sets the level to \<open>clamp (level + 1) 1 MAX_LEVEL\<close>. The streak is reset
  to 0 exactly when this changes the level; at a level already equal to the maximum the level
  stays and the streak keeps its incremented value.
\<close>

theorem updateStats_promotion:
  assumes "streak (stats skill) + 1 \<ge> 3"
    and "elapsed \<le> getTargetMs (level (stats skill))"
  shows "level (updateStats stats skill True elapsed skill) =
           clamp (level (stats skill) + 1) 1 (int MAX_LEVEL)
       \<and> streak (updateStats stats skill True elapsed skill) =
           (if level (stats skill) = int MAX_LEVEL then streak (stats skill) + 1 else 0)"
  using assms
  by (simp add: updateStats_def Let_def LEVELS_length MAX_LEVEL_def clamp_up_fix)

theorem updateStats_promotion_witness:
  "streak (stats_mid_level Mul) + 1 \<ge> 3
   \<and> 1000 \<le> getTargetMs (level (stats_mid_level Mul))
   \<and> level (updateStats stats_mid_level Mul True 1000 Mul) = 8
   \<and> streak (updateStats stats_mid_level Mul True 1000 Mul) = 0"
  using updateStats_promotion [of stats_mid_level Mul 1000]
  by (simp add: stats_mid_level_def getTargetMs_def clamp_def MAX_LEVEL_def)

text \<open>
  At the maximum level the hypotheses of C1 hold and the streak is not reset: from level 50
  with streak 2, a correct answer in 1000 ms leaves the level at 50 and the streak at 3.
\<close>

theorem updateStats_promotion_at_max_counterexample:
  "streak (stats_at_max_level Add) + 1 \<ge> 3
   \<and> 1000 \<le> getTargetMs (level (stats_at_max_level Add))
   \<and> level (updateStats stats_at_max_level Add True 1000 Add) = 50
   \<and> streak (updateStats stats_at_max_level Add True 1000 Add) = 3
   \<and> streak (updateStats stats_at_max_level Add True 1000 Add) \<noteq> 0"
  by (simp add: stats_at_max_level_def updateStats_def Let_def LEVELS_length MAX_LEVEL_def
        clamp_def getTargetMs_def)

text \<open>
  Claim C2, as the code has it. For an incorrect result whose incremented mistake-streak is
  at least 2, \<^verbatim>\<open>updateStats\<close> sets the level to \<open>clamp (level - 1) 1 MAX_LEVEL\<close>. The
  mistake-streak is reset to 0 exactly when this changes the level; at level 1 the level stays
  and the mistake-streak keeps its incremented value. A single miss (incremented
  mistake-streak equal to 1) never changes the level.
\<close>

theorem updateStats_demotion:
  "(mistakeStreak (stats skill) + 1 \<ge> 2 \<longrightarrow>
      level (updateStats stats skill False elapsed skill) =
        clamp (level (stats skill) - 1) 1 (int MAX_LEVEL)
    \<and> mistakeStreak (updateStats stats skill False elapsed skill) =
        (if level (stats skill) = 1 then mistakeStreak (stats skill) + 1 else 0))
   \<and> (mistakeStreak (stats skill) + 1 = 1 \<longrightarrow>
      level (updateStats stats skill False elapsed skill) = level (stats skill))"
  by (simp add: updateStats_def Let_def LEVELS_length MAX_LEVEL_def clamp_down_fix)

theorem updateStats_demotion_witness:
  "mistakeStreak (stats_mid_level Mul) + 1 \<ge> 2
   \<and> level (updateStats stats_mid_level Mul False 1000 Mul) = 6
   \<and> mistakeStreak (updateStats stats_mid_level Mul False 1000 Mul) = 0
   \<and> mistakeStreak (stats_full_window Sub) + 1 = 1
   \<and> level (updateStats stats_full_window Sub False 1000 Sub) = 2"
  using updateStats_demotion [of stats_mid_level Mul 1000]
    updateStats_demotion [of stats_full_window Sub 1000]
  by (simp add: stats_mid_level_def stats_full_window_def clamp_def MAX_LEVEL_def)

text \<open>
  At level 1 the hypothesis of C2 holds and the mistake-streak is not reset: after one miss
  from the default statistics (level 1, mistake-streak 1), a second miss leaves the level at 1
  and the mistake-streak at 2.
\<close>

theorem updateStats_demotion_at_level_one_counterexample:
  "level (stats_at_level_one Add) = 1
   \<and> mistakeStreak (stats_at_level_one Add) + 1 \<ge> 2
   \<and> level (updateStats stats_at_level_one Add False 1000 Add) = 1
   \<and> mistakeStreak (updateStats stats_at_level_one Add False 1000 Add) = 2
   \<and> mistakeStreak (updateStats stats_at_level_one Add False 1000 Add) \<noteq> 0"
  by (simp add: stats_at_level_one_def createDefaultStats_def updateStats_def Let_def
        LEVELS_length MAX_LEVEL_def clamp_def)

subsection \<open>The level invariant\<close>

text \<open>
  Claim C3. If the level of a skill lies in \<open>[1, MAX_LEVEL]\<close>, it lies there again after
  \<^verbatim>\<open>updateStats\<close> on any skill with any result; and starting from the default statistics
  the level of every skill lies in \<open>[1, MAX_LEVEL]\<close> after any sequence of calls.
\<close>

theorem updateStats_level_in_range:
  "(1 \<le> level (stats k) \<and> level (stats k) \<le> int MAX_LEVEL \<longrightarrow>
      1 \<le> level (updateStats stats skill c e k)
    \<and> level (updateStats stats skill c e k) \<le> int MAX_LEVEL)
   \<and> 1 \<le> level (updateStats_many createDefaultStats rs k)
   \<and> level (updateStats_many createDefaultStats rs k) \<le> int MAX_LEVEL"
proof -
  have "1 \<le> level (createDefaultStats k)" "level (createDefaultStats k) \<le> int MAX_LEVEL"
    by (simp_all add: createDefaultStats_def MAX_LEVEL_def)
  with updateStats_many_level [of createDefaultStats k rs]
    updateStats_level_step [of stats k skill c e]
  show ?thesis by blast
qed

theorem updateStats_level_in_range_witness:
  "1 \<le> level (stats_at_max_level Add) \<and> level (stats_at_max_level Add) \<le> int MAX_LEVEL
   \<and> 1 \<le> level (updateStats stats_at_max_level Add True 1000 Add)
   \<and> level (updateStats stats_at_max_level Add True 1000 Add) \<le> int MAX_LEVEL
   \<and> 1 \<le> level (updateStats_many createDefaultStats
              [(Add, False, 500), (Add, False, 500), (Mul, True, 100)] Add)
   \<and> level (updateStats_many createDefaultStats
              [(Add, False, 500), (Add, False, 500), (Mul, True, 100)] Add) \<le> int MAX_LEVEL"
  using updateStats_level_in_range [of stats_at_max_level Add Add True 1000
      "[(Add, False, 500), (Add, False, 500), (Mul, True, 100)]"]
  by (simp add: stats_at_max_level_def MAX_LEVEL_def)

subsection \<open>The history window\<close>

text \<open>
  Claim C4. The updated skill's history is the last 12 elements of the old history with the
  new result appended: the new result is its last element, entries are dropped from the
  front only, the order of the retained entries is kept, and the length is at most 12.
\<close>

theorem updateStats_history_window:
  "history (updateStats stats skill c e skill) =
     rev (take 12 (rev (history (stats skill) @ [\<lparr>correct = c, ms = e\<rparr>])))
   \<and> history (updateStats stats skill c e skill) =
     drop (length (history (stats skill)) + 1 - 12)
       (history (stats skill) @ [\<lparr>correct = c, ms = e\<rparr>])
   \<and> last (history (updateStats stats skill c e skill)) = \<lparr>correct = c, ms = e\<rparr>
   \<and> length (history (updateStats stats skill c e skill)) =
     min 12 (length (history (stats skill)) + 1)
   \<and> length (history (updateStats stats skill c e skill)) \<le> 12"
  unfolding updateStats_history last_elements MAX_HISTORY_def
  by auto

theorem updateStats_history_window_witness:
  "history (updateStats stats_full_window Sub False 77 Sub) =
     map (\<lambda>i. \<lparr>correct = True, ms = i\<rparr>) [2, 3, 4, 5, 6, 7, 8, 9, 10, 11, 12]
       @ [\<lparr>correct = False, ms = 77\<rparr>]
   \<and> length (history (updateStats stats_full_window Sub False 77 Sub)) = 12"
  using updateStats_history_window [of stats_full_window Sub False 77]
  by (simp add: stats_full_window_def full_history_def)

subsection \<open>Target time\<close>

text \<open>
  Claim C7. \<^verbatim>\<open>getTargetMs level\<close> is \<open>6000 - level * 300\<close> clamped into
  \<open>[2400, 6000]\<close>; it is non-increasing in the level and its value lies in \<open>[2400, 6000]\<close>.
\<close>

theorem getTargetMs_clamped_monotone:
  "getTargetMs l =
     (if 6000 - l * 300 < 2400 then 2400
      else if 6000 < 6000 - l * 300 then 6000 else 6000 - l * 300)
   \<and> (\<forall>l1 l2. l1 \<le> l2 \<longrightarrow> getTargetMs l2 \<le> getTargetMs l1)
   \<and> 2400 \<le> getTargetMs l \<and> getTargetMs l \<le> 6000"
  by (auto simp: getTargetMs_def clamp_def Let_def)

theorem getTargetMs_clamped_monotone_witness:
  "getTargetMs 5 = 4500 \<and> (3::int) \<le> 20 \<and> getTargetMs 20 \<le> getTargetMs 3
   \<and> getTargetMs 3 = 5100 \<and> getTargetMs 20 = 2400"
  using getTargetMs_clamped_monotone [of 5]
  by (simp add: getTargetMs_def clamp_def)

subsection \<open>Accuracy, average time and the weakest skill\<close>

text \<open>
  Claim C9. On an empty history \<^verbatim>\<open>getAccuracy\<close> and \<^verbatim>\<open>getAverageMs\<close> are 0; on a
  non-empty history they are the number of correct entries divided by the length, and the
  arithmetic mean of the elapsed times. On \<open>[correct (1000 ms), wrong (2000 ms)]\<close> they are
  \<open>1/2\<close> and \<open>1500\<close>.
\<close>

theorem getAccuracy_getAverageMs:
  "(history s = [] \<longrightarrow> getAccuracy s = 0 \<and> getAverageMs s = 0)
   \<and> (history s \<noteq> [] \<longrightarrow>
        getAccuracy s = of_nat (length (filter correct (history s))) / of_nat (length (history s))
      \<and> getAverageMs s = of_int (sum_list (map ms (history s))) / of_nat (length (history s)))
   \<and> getAccuracy (stats_mid_level Mul) = 1 / 2
   \<and> getAverageMs (stats_mid_level Mul) = 1500"
  by (simp add: getAccuracy_def getAverageMs_def accuracyFromHistory_def foldl_count_correct
        foldl_sum_ms Let_def stats_mid_level_def)

theorem getAccuracy_getAverageMs_witness:
  "history (createDefaultStats Add) = []
   \<and> getAccuracy (createDefaultStats Add) = 0 \<and> getAverageMs (createDefaultStats Add) = 0
   \<and> history (stats_tied Div) \<noteq> []
   \<and> getAccuracy (stats_tied Div) = 1 / 2 \<and> getAverageMs (stats_tied Div) = 900"
  using getAccuracy_getAverageMs [of "createDefaultStats Add"]
    getAccuracy_getAverageMs [of "stats_tied Div"]
  by (simp add: createDefaultStats_def stats_tied_def)

text \<open>
  Claim C8. The score of a skill is its history accuracy when the history is non-empty and
  \<open>0.55\<close> otherwise; \<^verbatim>\<open>getWeakestSkill\<close> returns a skill of minimum score, and among the
  skills of minimum score the first one of the skill list.
\<close>

theorem getWeakestSkill_first_minimum:
  "(\<forall>k. skill_score stats k =
          (if history (stats k) = [] then 11 / 20 else getAccuracy (stats k)))
   \<and> (\<forall>j. skill_score stats (getWeakestSkill stats) \<le> skill_score stats j)
   \<and> find (\<lambda>k. \<forall>j. skill_score stats k \<le> skill_score stats j) SKILL_LIST =
       Some (getWeakestSkill stats)"
proof -
  have score: "\<forall>k. skill_score stats k =
      (if history (stats k) = [] then 11 / 20 else getAccuracy (stats k))"
    by (simp add: skill_score_def getAccuracy_def Let_def)
  have first: "find (\<lambda>k. \<forall>j. skill_score stats k \<le> skill_score stats j) SKILL_LIST =
      Some (getWeakestSkill stats)"
    using skill_score_le_1 [of stats Add] skill_score_le_1 [of stats Sub]
      skill_score_le_1 [of stats Mul] skill_score_le_1 [of stats Div]
    by (auto simp: all_skills getWeakestSkill_def SKILL_LIST_def weakest_step_def Let_def)
  then have "\<forall>j. skill_score stats (getWeakestSkill stats) \<le> skill_score stats j"
    by (auto simp: find_Some_iff)
  with score first show ?thesis by blast
qed

theorem getWeakestSkill_first_minimum_witness:
  "skill_score stats_tied Add = 1 \<and> skill_score stats_tied Sub = 11 / 20
   \<and> skill_score stats_tied Mul = 1 / 2 \<and> skill_score stats_tied Div = 1 / 2
   \<and> getWeakestSkill stats_tied = Mul"
  using getWeakestSkill_first_minimum [of stats_tied]
  by (simp add: stats_tied_def createDefaultStats_def skill_score_def getAccuracy_def
        accuracyFromHistory_def SKILL_LIST_def all_skills)


subsection \<open>Division questions\<close>

lemma getLevelSpec_Some: "\<exists>spec. getLevelSpec skill lvl = Some spec"
proof -
  have "length (LEVELS skill) = 50" by (simp add: LEVELS_length MAX_LEVEL_def)
  then show ?thesis
    by (auto simp: getLevelSpec_def Let_def clamp_def)
qed

lemma getLevelSpec_Div_3: "getLevelSpec Div 3 = Some (div_spec 1 12 0 12)"
proof -
  have "length (LEVELS Div) = 50" by (simp add: LEVELS_length MAX_LEVEL_def)
  moreover have "LEVELS Div ! 2 = div_spec 1 12 0 12"
    by (simp add: LEVELS.simps buildDivLevels_def BASE_DIV_LEVELS_def MAX_LEVEL_def Let_def
       )
  ultimately show ?thesis
    by (auto simp: getLevelSpec_def Let_def clamp_def)
qed

lemma randomInt_in_range:
  assumes "0 \<le> r" and "r < 1" and "mn \<le> mx"
  shows "mn \<le> randomInt r mn mx \<and> randomInt r mn mx \<le> mx"
proof -
  have pos: "(0::rat) < of_int (mx - mn + 1)" using assms(3) by simp
  have "0 \<le> r * of_int (mx - mn + 1)" using assms(1) pos by simp
  then have lo: "0 \<le> \<lfloor>r * of_int (mx - mn + 1)\<rfloor>" by simp
  have "r * of_int (mx - mn + 1) < 1 * of_int (mx - mn + 1)"
    using assms(2) pos by (rule mult_strict_right_mono)
  then have "r * of_int (mx - mn + 1) < of_int (mx - mn + 1)"
    by (simp only: mult_1)
  then have "\<lfloor>r * of_int (mx - mn + 1)\<rfloor> < mx - mn + 1"
    by (simp only: floor_less_iff)
  with lo show ?thesis by (simp add: randomInt_def Let_def)
qed

text \<open>
  Claim C6. For every level and every pair of random draws, the division question has the
  divisor \<open>max 1 a\<close>, which is never zero, the answer \<open>b\<close>, and the text
  \<^verbatim>\<open>dividend / divisor\<close> with dividend \<open>divisor * b\<close>; the dividend divided by the divisor
  is the answer and leaves no remainder.
\<close>

theorem generateQuestion_division:
  "\<exists>spec q. getLevelSpec Div lvl = Some spec
     \<and> generateQuestion Div lvl options ra rb now suffix = Some q
     \<and> q_text q = show_int (max 1 (operandA spec ra) * operandB spec rb) @ '' / ''
                   @ show_int (max 1 (operandA spec ra))
     \<and> q_answer q = operandB spec rb
     \<and> max 1 (operandA spec ra) \<noteq> 0
     \<and> (max 1 (operandA spec ra) * operandB spec rb) div max 1 (operandA spec ra) = q_answer q
     \<and> (max 1 (operandA spec ra) * operandB spec rb) mod max 1 (operandA spec ra) = 0"
proof -
  obtain spec where s: "getLevelSpec Div lvl = Some spec"
    using getLevelSpec_Some by blast
  have "max 1 (operandA spec ra) \<noteq> 0" by simp
  then show ?thesis
    by (simp add: s generateQuestion_def Let_def)
qed

theorem generateQuestion_division_witness:
  "\<exists>q. generateQuestion Div 3 None (1 / 2) (3 / 4) 1700000000000 ''ab12'' = Some q
     \<and> q_text q = ''63 / 7'' \<and> q_answer q = 9 \<and> (63::int) div 7 = 9 \<and> (63::int) mod 7 = 0"
proof -
  have a: "operandA (div_spec 1 12 0 12) (1 / 2) = 7"
    by code_simp
  have b: "operandB (div_spec 1 12 0 12) (3 / 4) = 9"
    by code_simp
  have s63: "show_int 63 = ''63''" by code_simp
  have s7: "show_int 7 = ''7''" by code_simp
  show ?thesis
    using generateQuestion_division [of 3 None "1 / 2" "3 / 4" 1700000000000 "''ab12''"]
    by (auto simp: getLevelSpec_Div_3 a b s63 s7)
qed

subsection \<open>Rejected submissions\<close>

lemma trim_minus: "trim ''-'' = ''-''"
  by (simp add: trim_def is_space_def)

lemma sanitize_minus: "sanitizeNumericInput ''-'' False = []"
  by (simp add: sanitizeNumericInput_def)

text \<open>
  Claim C5, as the code has it. With negative answers disabled the sanitizer strips the sign
  of the raw input \<^verbatim>\<open>"-"\<close>, the parser reports the empty string as the failure mode
  \<^verbatim>\<open>empty\<close>, and \<^verbatim>\<open>handleSubmit\<close> only sets the error message of that mode
  (\<^verbatim>\<open>Type an answer.\<close>, or \<^verbatim>\<open>Tap numbers to continue.\<close> for a keypad submission): the
  question stays unanswered, no result reaches the statistics, and the session counts, the
  feedback and the remaining time are untouched.
\<close>

theorem handleSubmit_bare_minus:
  assumes "st_question st = Some question" and "\<not> st_answered st"
    and "st_answer st = ''-''" and "\<not> allowNegativeAnswer mathTrainingProvider st"
  shows "sanitizeNumericInput (trim (st_answer st)) False = []
    \<and> parseNumericInput (sanitizeNumericInput (trim (st_answer st)) False) = Inl EmptyInput
    \<and> handleSubmit mathTrainingProvider now useKeypad st =
        st\<lparr>st_error :=
             Some (if useKeypad then ''Tap numbers to continue.'' else ''Type an answer.'')\<rparr>
    \<and> \<not> st_answered (handleSubmit mathTrainingProvider now useKeypad st)
    \<and> st_question (handleSubmit mathTrainingProvider now useKeypad st) = st_question st
    \<and> st_stats (handleSubmit mathTrainingProvider now useKeypad st) = st_stats st
    \<and> st_statsRef (handleSubmit mathTrainingProvider now useKeypad st) = st_statsRef st
    \<and> st_session (handleSubmit mathTrainingProvider now useKeypad st) = st_session st
    \<and> st_feedback (handleSubmit mathTrainingProvider now useKeypad st) = st_feedback st
    \<and> st_timeLeft (handleSubmit mathTrainingProvider now useKeypad st) = st_timeLeft st"
  using assms
  by (simp add: handleSubmit_def mathTrainingProvider_def math_errors_def trim_minus
        sanitize_minus parseNumericInput_def Let_def)

theorem handleSubmit_bare_minus_witness:
  "st_question drill_state_bare_minus = Some example_question
   \<and> \<not> st_answered drill_state_bare_minus
   \<and> st_answer drill_state_bare_minus = ''-''
   \<and> \<not> allowNegativeAnswer mathTrainingProvider drill_state_bare_minus
   \<and> handleSubmit mathTrainingProvider 1700000004000 True drill_state_bare_minus =
       drill_state_bare_minus\<lparr>st_error := Some ''Tap numbers to continue.''\<rparr>
   \<and> st_session (handleSubmit mathTrainingProvider 1700000004000 True drill_state_bare_minus) =
       \<lparr>sc_correct = 2, sc_wrong = 1\<rparr>"
  using handleSubmit_bare_minus [of drill_state_bare_minus example_question 1700000004000 True]
  by (simp add: drill_state_bare_minus_def allowNegativeAnswer_def mathTrainingProvider_def
        allowNegativeAnswer_math_def example_question_def)

text \<open>
  The submission of \<^verbatim>\<open>"-"\<close> with negative answers disabled is not reported as
  \<^verbatim>\<open>invalid\<close>: the parse result is \<^verbatim>\<open>empty\<close> and the message is the one of \<^verbatim>\<open>empty\<close>.
\<close>

theorem handleSubmit_bare_minus_not_invalid_counterexample:
  "st_question drill_state_bare_minus = Some example_question
   \<and> \<not> st_answered drill_state_bare_minus
   \<and> st_answer drill_state_bare_minus = ''-''
   \<and> \<not> allowNegativeAnswer mathTrainingProvider drill_state_bare_minus
   \<and> parseNumericInput (sanitizeNumericInput (trim (st_answer drill_state_bare_minus)) False)
       = Inl EmptyInput
   \<and> parseNumericInput (sanitizeNumericInput (trim (st_answer drill_state_bare_minus)) False)
       \<noteq> Inl InvalidInput
   \<and> st_error (handleSubmit mathTrainingProvider 1700000004000 False drill_state_bare_minus)
       = Some ''Type an answer.''
   \<and> st_error (handleSubmit mathTrainingProvider 1700000004000 False drill_state_bare_minus)
       \<noteq> Some (err_invalid math_errors)"
  by (simp add: drill_state_bare_minus_def example_question_def allowNegativeAnswer_def
        mathTrainingProvider_def allowNegativeAnswer_math_def handleSubmit_def math_errors_def
        trim_minus sanitize_minus parseNumericInput_def Let_def)

subsection \<open>The frame of the leveling step\<close>

lemma lookup_append: "lookup h a = Some x \<Longrightarrow> lookup (h @ ys) a = Some x"
  by (auto simp: lookup_def nth_append split: if_splits)

lemma lookup_fresh: "lookup (h @ x # ys) (length h) = Some x"
  by (simp add: lookup_def)

lemma those_eq_Some: "those os = Some ys \<longleftrightarrow> os = map Some ys"
proof (induction os arbitrary: ys)
  case Nil
  then show ?case by auto
next
  case (Cons x os)
  then show ?case by (cases x; cases ys) (auto split: option.splits)
qed

lemma read_result_append: "read_result h a = Some r \<Longrightarrow> read_result (h @ ys) a = Some r"
  by (auto simp: read_result_def lookup_append split: option.splits obj.splits)

lemma map_read_result_append:
  "map (read_result h) elems = map Some rs \<Longrightarrow>
   map (read_result (h @ ys)) elems = map Some rs"
proof (induction elems arbitrary: rs)
  case Nil
  then show ?case by simp
next
  case (Cons e elems)
  then show ?case by (cases rs) (auto simp: read_result_append)
qed

lemma read_array_append: "read_array h a = Some rs \<Longrightarrow> read_array (h @ ys) a = Some rs"
  by (auto simp: read_array_def lookup_append those_eq_Some map_read_result_append
      split: option.splits obj.splits)

lemma read_skill_append: "read_skill h a = Some s \<Longrightarrow> read_skill (h @ ys) a = Some s"
  by (auto simp: read_skill_def lookup_append read_array_append split: option.splits obj.splits)

lemma read_stats_Some_iff:
  "read_stats h a = Some stats \<longleftrightarrow>
     (\<exists>refs. lookup h a = Some (StatsObj refs) \<and> (\<forall>k. read_skill h (refs k) = Some (stats k)))"
proof
  assume r: "read_stats h a = Some stats"
  then obtain refs where f: "lookup h a = Some (StatsObj refs)"
    by (auto simp: read_stats_def split: option.splits obj.splits)
  from r f have ok: "list_all (\<lambda>k. read_skill h (refs k) \<noteq> None) SKILL_LIST"
    and st: "stats = (\<lambda>k. the (read_skill h (refs k)))"
    by (auto simp: read_stats_def split: if_splits)
  have "read_skill h (refs k) = Some (stats k)" for k
  proof -
    from ok have "read_skill h (refs k) \<noteq> None"
      by (cases k) (simp_all add: SKILL_LIST_def)
    then show ?thesis by (auto simp: st)
  qed
  with f show "\<exists>refs. lookup h a = Some (StatsObj refs) \<and>
      (\<forall>k. read_skill h (refs k) = Some (stats k))" by blast
next
  assume "\<exists>refs. lookup h a = Some (StatsObj refs) \<and>
      (\<forall>k. read_skill h (refs k) = Some (stats k))"
  then obtain refs where f: "lookup h a = Some (StatsObj refs)"
    and ok: "\<And>k. read_skill h (refs k) = Some (stats k)" by blast
  show "read_stats h a = Some stats"
    by (simp add: read_stats_def f ok SKILL_LIST_def)
qed

lemma read_stats_append:
  assumes "read_stats h a = Some stats"
  shows "read_stats (h @ ys) a = Some stats"
  using assms unfolding read_stats_Some_iff
  by (auto intro: lookup_append read_skill_append)

lemma those_map_Some: "those (map Some ys) = Some ys"
  by (simp add: those_eq_Some)

lemma read_skill_SomeD:
  "read_skill h a = Some s \<Longrightarrow>
     \<exists>hr. lookup h a = Some (SkillStatsObj (level s) (streak s) (mistakeStreak s) hr)
        \<and> read_array h hr = Some (history s)"
  by (auto simp: read_skill_def split: option.splits obj.splits)

lemma read_array_SomeD:
  "read_array h a = Some rs \<Longrightarrow>
     \<exists>elems. lookup h a = Some (ArrayObj elems) \<and> map (read_result h) elems = map Some rs"
  by (auto simp: read_array_def those_eq_Some split: option.splits obj.splits)

lemma map_slice_from:
  assumes "map g xs = map f ys"
  shows "map g (slice_from xs k) = map f (slice_from ys k)"
proof -
  from assms have len: "length xs = length ys" by (rule map_eq_imp_length_eq)
  from assms have "drop n (map g xs) = drop n (map f ys)" for n by simp
  then have "map g (drop n xs) = map f (drop n ys)" for n by (simp add: drop_map)
  then show ?thesis by (simp add: slice_from_def Let_def len)
qed

lemma updateStats_store_refines:
  assumes "read_stats h a = Some stats"
  shows "\<exists>h' a'. updateStats_store h a skill c e = Some (h', a')
     \<and> take (length h) h' = h
     \<and> read_stats h' a = Some stats
     \<and> read_stats h' a' = Some (updateStats stats skill c e)
     \<and> (\<forall>k. k \<noteq> skill \<longrightarrow> stats_field h' a' k = stats_field h a k)"
proof -
  from assms obtain refs where f: "lookup h a = Some (StatsObj refs)"
    and ok: "\<And>k. read_skill h (refs k) = Some (stats k)"
    unfolding read_stats_Some_iff by blast
  from read_skill_SomeD [OF ok [of skill]] obtain hr where
    cur: "lookup h (refs skill) =
      Some (SkillStatsObj (level (stats skill)) (streak (stats skill))
        (mistakeStreak (stats skill)) hr)"
    and hist: "read_array h hr = Some (history (stats skill))"
    by blast
  from read_array_SomeD [OF hist] obtain elems where
    arr: "lookup h hr = Some (ArrayObj elems)"
    and el: "map (read_result h) elems = map Some (history (stats skill))"
    by blast
  define r where "r = \<lparr>correct = c, ms = e\<rparr>"
  define nh where "nh = slice_from (elems @ [length h]) (- int MAX_HISTORY)"
  define nextSkill where
    "nextSkill = SkillStatsObj (level (updateStats stats skill c e skill))
       (streak (updateStats stats skill c e skill))
       (mistakeStreak (updateStats stats skill c e skill)) (length h + 2)"
  define ext where
    "ext = [ResultObj c e, ArrayObj (elems @ [length h]), ArrayObj nh, nextSkill,
            StatsObj (refs(skill := length h + 3))]"
  have run: "updateStats_store h a skill c e = Some (h @ ext, length h + 4)"
    by (simp add: updateStats_store_def f cur arr alloc_def Let_def ext_def nextSkill_def
        nh_def updateStats_def eval_nat_numeral)
  have keep: "take (length h) (h @ ext) = h" by simp
  have old: "read_stats (h @ ext) a = Some stats"
    using assms by (rule read_stats_append)
  have l4: "lookup (h @ ext) (length h + 4) = Some (StatsObj (refs(skill := length h + 3)))"
    by (simp add: lookup_def ext_def nth_append)
  have l3: "lookup (h @ ext) (length h + 3) = Some nextSkill"
    by (simp add: lookup_def ext_def nth_append)
  have l2: "lookup (h @ ext) (length h + 2) = Some (ArrayObj nh)"
    by (simp add: lookup_def ext_def nth_append)
  have l0: "read_result (h @ ext) (length h) = Some r"
    by (simp add: read_result_def lookup_def ext_def r_def)
  have "map (read_result (h @ ext)) (elems @ [length h]) =
      map Some (history (stats skill) @ [r])"
    using map_read_result_append [OF el, of ext] l0 by simp
  then have "map (read_result (h @ ext)) nh =
      map Some (slice_from (history (stats skill) @ [r]) (- int MAX_HISTORY))"
    unfolding nh_def by (rule map_slice_from)
  then have newh: "read_array (h @ ext) (length h + 2) =
      Some (history (updateStats stats skill c e skill))"
    unfolding read_array_def l2
    by (simp add: those_eq_Some updateStats_def Let_def r_def)
  have news: "read_skill (h @ ext) (length h + 3) = Some (updateStats stats skill c e skill)"
    unfolding read_skill_def l3 nextSkill_def obj.case option.case newh
    by simp
  have "read_skill (h @ ext) ((refs(skill := length h + 3)) k) =
      Some (updateStats stats skill c e k)" for k
  proof (cases "k = skill")
    case True
    then show ?thesis using news by simp
  next
    case False
    then show ?thesis
      using read_skill_append [OF ok [of k], of ext] by (simp add: updateStats_other)
  qed
  then have new: "read_stats (h @ ext) (length h + 4) = Some (updateStats stats skill c e)"
    unfolding read_stats_Some_iff using l4 by blast
  have shared: "\<forall>k. k \<noteq> skill \<longrightarrow>
      stats_field (h @ ext) (length h + 4) k = stats_field h a k"
    unfolding stats_field_def l4 f by simp
  from run keep old new shared show ?thesis by blast
qed

lemma read_stats_shared: "read_stats shared_store 3 = Some shared_stats"
  unfolding read_stats_Some_iff
  by (simp add: shared_store_def shared_stats_def lookup_def read_skill_def read_array_def
      read_result_def)

text \<open>
  Claim C10. The statistics that \<^verbatim>\<open>updateStats\<close> returns map every skill other than the
  updated one to its previous \<^verbatim>\<open>SkillStats\<close>. On the object store the call only allocates:
  every object that existed before is unchanged, so the argument still denotes the same
  statistics afterwards; the returned object denotes the result of the pure function, and
  its fields for the other skills are the very references of the argument.
\<close>

theorem updateStats_frame:
  "(k \<noteq> skill \<longrightarrow> updateStats stats skill c e k = stats k)
   \<and> (read_stats h a = Some stats \<longrightarrow>
        (\<exists>h' a'. updateStats_store h a skill c e = Some (h', a')
           \<and> take (length h) h' = h
           \<and> read_stats h' a = Some stats
           \<and> read_stats h' a' = Some (updateStats stats skill c e)
           \<and> (\<forall>j. j \<noteq> skill \<longrightarrow> stats_field h' a' j = stats_field h a j)))"
  using updateStats_other [of k skill stats c e] updateStats_store_refines [of h a stats skill c e]
  by blast

theorem updateStats_frame_witness:
  "Mul \<noteq> Add
   \<and> updateStats shared_stats Add False 500 Mul = shared_stats Mul
   \<and> read_stats shared_store 3 = Some shared_stats
   \<and> (\<exists>h' a'. updateStats_store shared_store 3 Add False 500 = Some (h', a')
         \<and> take (length shared_store) h' = shared_store
         \<and> read_stats h' 3 = Some shared_stats
         \<and> read_stats h' a' = Some (updateStats shared_stats Add False 500)
         \<and> stats_field h' a' Mul = Some 2)"
proof -
  have f: "stats_field shared_store 3 Mul = Some 2"
    by (simp add: stats_field_def shared_store_def lookup_def)
  show ?thesis
    using updateStats_frame [of Mul Add shared_stats False 500 shared_store 3] read_stats_shared f
    by auto
qed

end
